theory Spec2Isabelle
  imports Main
begin

section \<open>Values of the platform\<close>

text \<open>
  A JavaScript \<open>Date\<close>: either the invalid date (time value NaN) or a calendar date in the
  server's local time zone, given by full year, month, day and millisecond of the day.
  \<open>getFullYear\<close> of the invalid date is NaN, written \<open>None\<close>.
\<close>

datatype js_date = Invalid_Date | Date int nat nat nat

fun getFullYear :: "js_date \<Rightarrow> int option" where
  "getFullYear Invalid_Date = None"
| "getFullYear (Date y m d ms) = Some y"

text \<open>JavaScript \<open>a - b\<close> and \<open>a < n\<close> on numbers that may be NaN: NaN propagates through
  the subtraction, and every comparison with NaN is false.\<close>

definition js_minus :: "int option \<Rightarrow> int option \<Rightarrow> int option" where
  "js_minus a b = (case a of None \<Rightarrow> None | Some x \<Rightarrow> (case b of None \<Rightarrow> None | Some y \<Rightarrow> Some (x - y)))"

definition js_less :: "int option \<Rightarrow> int \<Rightarrow> bool" where
  "js_less a n = (case a of None \<Rightarrow> False | Some x \<Rightarrow> x < n)"

text \<open>What a \<open>throw\<close> carries: a plain \<open>Error\<close> with its message, or the ORM's
  \<open>QueryFailedError\<close> raised when the storage layer rejects a statement.\<close>

datatype error = Error string | QueryFailedError string

fun message :: "error \<Rightarrow> string" where
  "message (Error m) = m"
| "message (QueryFailedError m) = m"

section \<open>Data model\<close>

datatype UserRole = CUSTOMER | STORE_OWNER

datatype UserType = LOCAL | GOOGLE | APPLE

datatype BusinessType = sole_proprietorship | partnership | llc | corporation | other

datatype FrenchBusinessType = auto_entrepreneur | eurl | sarl | sas | sasu | sa

record Address =
  street :: string
  city :: string
  postalCode :: string
  country :: string

record CountrySpecificFields =
  siren :: "string option"
  siret :: "string option"
  frenchBusinessType :: "FrenchBusinessType option"
  ein :: "string option"
  companyNumber :: "string option"
  ukVatNumber :: "string option"
  euVatNumber :: "string option"
  taxId :: "string option"
  businessRegistrationNumber :: "string option"
  localBusinessType :: "string option"

definition no_CountrySpecificFields :: CountrySpecificFields where
  "no_CountrySpecificFields =
     \<lparr>siren = None, siret = None, frenchBusinessType = None, ein = None, companyNumber = None,
      ukVatNumber = None, euVatNumber = None, taxId = None, businessRegistrationNumber = None,
      localBusinessType = None\<rparr>"

text \<open>
  The \<open>User\<close> entity, with the columns that the authentication service and the
  controllers read or write. Identifiers are generated by the storage layer; they are
  modelled as natural numbers. A nullable column is an \<open>option\<close>.
\<close>

record User =
  user_id :: nat
  email :: string
  password :: "string option"
  firstName :: string
  lastName :: string
  role :: UserRole
  userType :: UserType
  isActive :: bool
  isFullyRegistered :: bool
  lastLoginAt :: "js_date option"
  businessName :: "string option"
  businessType :: "BusinessType option"
  businessAddress :: "Address option"
  countrySpecificFields :: "CountrySpecificFields option"
  ownerPhone :: "string option"
  ownerDateOfBirth :: "js_date option"
  acceptedTerms :: bool
  acceptedPrivacyPolicy :: bool
  acceptedDataProcessing :: bool
  marketingConsent :: "bool option"
  termsAcceptedAt :: "js_date option"
  privacyPolicyAcceptedAt :: "js_date option"
  dataProcessingAcceptedAt :: "js_date option"
  marketingConsentGivenAt :: "js_date option"
  registrationIpAddress :: "string option"
  registrationUserAgent :: "string option"

datatype DocumentState = pending | verified | rejected

text \<open>
  The \<open>Store\<close> entity. The JSON column \<open>documentVerificationStatus\<close> is an object, kept
  as the list of its key/value pairs in the order the object literal writes them. The
  columns no operation below touches (description, contact email, opening hours, time
  zone, holiday message, uploaded documents, verification notes, verifier, the two
  timestamps the storage layer maintains, and the relations) are left out.
\<close>

record Store =
  store_id :: nat
  ownerId :: "nat option"
  name :: string
  slug :: "string option"
  address :: "string option"
  phone :: "string option"
  isHoliday :: bool
  store_isActive :: bool
  legalBusinessName :: "string option"
  legalBusinessType :: "BusinessType option"
  legalAddress :: "Address option"
  store_countrySpecificFields :: "CountrySpecificFields option"
  documentVerificationStatus :: "(string \<times> DocumentState) list option"
  isLegallyVerified :: bool

text \<open>What \<open>storeRepository.create\<close> starts from: every nullable column absent and the
  entity's declared defaults (\<open>isHoliday\<close> false, \<open>isActive\<close> true,
  \<open>isLegallyVerified\<close> false). The identifier is assigned on insertion.\<close>

definition Store_defaults :: Store where
  "Store_defaults =
     \<lparr>store_id = 0, ownerId = None, name = [], slug = None, address = None, phone = None,
      isHoliday = False, store_isActive = True, legalBusinessName = None,
      legalBusinessType = None, legalAddress = None, store_countrySpecificFields = None,
      documentVerificationStatus = None, isLegallyVerified = False\<rparr>"

subsection \<open>Requests and responses\<close>

record LoginRequest =
  login_email :: string
  login_password :: string


record StoreOwnerRegisterRequest =
  req_email :: string
  req_password :: string
  req_storeName :: string
  req_businessName :: string
  req_businessType :: BusinessType
  req_businessAddress :: Address
  req_ownerFirstName :: string
  req_ownerLastName :: string
  req_ownerPhone :: string
  req_ownerDateOfBirth :: js_date
  req_acceptedTerms :: bool
  req_acceptedPrivacyPolicy :: bool
  req_acceptedDataProcessing :: bool
  req_marketingConsent :: "bool option"
  req_countrySpecificFields :: "CountrySpecificFields option"
  req_ipAddress :: string
  req_userAgent :: string

record OnboardingData =
  ob_phoneNumber :: string
  ob_storeName :: string
  ob_siret :: string
  ob_storeAddress :: Address
  ob_billingAddress :: Address
  ob_acceptedCGU :: bool
  ob_acceptedCGUAt :: string

text \<open>The partial views of a user and of a store that the service returns. A key that a
  given operation does not put into its view is \<open>None\<close>.\<close>

record UserView =
  view_id :: nat
  view_email :: string
  view_firstName :: string
  view_lastName :: string
  view_role :: UserRole
  view_type :: UserType
  view_isActive :: bool
  view_lastLoginAt :: "js_date option"
  view_isFullyRegistered :: "bool option"

record StoreView =
  sview_id :: nat
  sview_name :: string
  sview_isActive :: bool
  sview_isLegallyVerified :: "bool option"

record AuthResponse =
  token :: string
  user :: UserView
  store :: "StoreView option"

record OnboardingResponse =
  ob_user :: UserView
  ob_store :: StoreView

text \<open>The payload of a token. The service signs payloads that carry the user's
  identifier; a payload that \<open>verify\<close> decodes is untyped in the code, and its
  \<open>userId\<close> may be missing, written \<open>None\<close>.\<close>

record JwtPayload =
  jwt_userId :: "nat option"
  jwt_email :: string
  jwt_role :: UserRole

text \<open>The three error classes of the token library. \<open>TokenExpiredError\<close> and
  \<open>NotBeforeError\<close> are subclasses of \<open>JsonWebTokenError\<close>.\<close>

datatype jwt_error = JsonWebTokenError | TokenExpiredError | NotBeforeError

subsection \<open>The audit trail\<close>

datatype ConsentKind = terms | privacy | data_processing | marketing

record StoreRegistrationPayload =
  sr_name :: string
  sr_businessName :: string
  sr_businessType :: BusinessType
  sr_businessAddress :: Address
  sr_countrySpecificFields :: "CountrySpecificFields option"

datatype AuditLog =
    UserRegistration nat StoreOwnerRegisterRequest string string
  | StoreRegistration nat StoreRegistrationPayload nat string string
  | ConsentAcceptance nat ConsentKind bool string string

subsection \<open>The stored state\<close>

record Database =
  users :: "User list"
  stores :: "Store list"
  auditLogs :: "AuditLog list"

definition empty_db :: Database where
  "empty_db = \<lparr>users = [], stores = [], auditLogs = []\<rparr>"

section \<open>External collaborators\<close>

text \<open>
  The library functions the service calls and the declarations it imports from files
  outside this source tree are parameters of the model: \<open>String.prototype.toLowerCase\<close>,
  the password hash and its check, the token library's \<open>sign\<close> (payload, secret, validity window) and
  \<open>verify\<close> (token, secret), which both read the clock, passed as their last argument, the date parser behind
  \<open>new Date(string)\<close>, the environment variable \<open>JWT_SECRET\<close>, the slug helper
  \<open>createSlug\<close> of \<open>utils/slug\<close>, and the column defaults of the \<open>User\<close> entity
  (what \<open>userRepository.create\<close> leaves in the columns it is not given).
\<close>

record Externals =
  toLowerCase :: "string \<Rightarrow> string"
  bcrypt_hash :: "string \<Rightarrow> nat \<Rightarrow> string"
  bcrypt_compare :: "string \<Rightarrow> string \<Rightarrow> bool"
  jwt_sign :: "JwtPayload \<Rightarrow> string \<Rightarrow> string \<Rightarrow> js_date \<Rightarrow> string"
  jwt_verify :: "string \<Rightarrow> string \<Rightarrow> js_date \<Rightarrow> jwt_error + JwtPayload"
  new_Date :: "string \<Rightarrow> js_date"
  JWT_SECRET :: "string option"
  createSlug :: "string \<Rightarrow> string"
  User_defaults :: User


section \<open>Storage layer\<close>

text \<open>A generated primary key: a value that no existing row carries.\<close>

definition new_id :: "nat list \<Rightarrow> nat" where
  "new_id ids = Suc (fold max ids 0)"

definition findUserByEmail :: "Database \<Rightarrow> string \<Rightarrow> User option" where
  "findUserByEmail db e = find (\<lambda>u. email u = e) (users db)"

definition findUserById :: "Database \<Rightarrow> nat \<Rightarrow> User option" where
  "findUserById db i = find (\<lambda>u. user_id u = i) (users db)"

text \<open>\<open>findOne({ where: { id, isActive: true } })\<close> with the identifier read from a
  decoded token. The ORM drops a condition whose value is undefined, so a payload
  without \<open>userId\<close> selects the first active user.\<close>

definition findActiveUserById :: "Database \<Rightarrow> nat option \<Rightarrow> User option" where
  "findActiveUserById db i =
     (case i of
        None \<Rightarrow> find (\<lambda>u. isActive u) (users db)
      | Some k \<Rightarrow> find (\<lambda>u. user_id u = k \<and> isActive u) (users db))"

definition findStoreBySlug :: "Database \<Rightarrow> string \<Rightarrow> Store option" where
  "findStoreBySlug db sl = find (\<lambda>s. slug s = Some sl) (stores db)"

text \<open>
  \<open>repository.save\<close> commits on its own: the repositories are taken from the data source,
  and the service opens no transaction around its calls. Saving an entity without an
  identifier inserts a row; saving a loaded entity updates the row with its identifier.
  The \<open>User\<close> entity's declaration is not part of this source tree, so no storage
  constraint is enforced on users here. \<open>Store.slug\<close> is declared unique and nullable:
  inserting a store whose slug another row carries is refused by the storage layer.
\<close>

definition insertUser :: "Database \<Rightarrow> User \<Rightarrow> User \<times> Database" where
  "insertUser db u =
     (let u' = u\<lparr>user_id := new_id (map user_id (users db))\<rparr>
      in (u', db\<lparr>users := users db @ [u']\<rparr>))"

text \<open>
  Saving a loaded entity updates its row, and skips every property that is undefined:
  the column keeps its stored value. In an entity, \<open>None\<close> stands for a property that is
  null as loaded or undefined as assigned (the service never assigns null); in the first
  case the stored column is null already, so in both cases the stored column is kept.
\<close>

definition keep_undefined :: "'a option \<Rightarrow> 'a option \<Rightarrow> 'a option" where
  "keep_undefined stored given = (case given of None \<Rightarrow> stored | Some v \<Rightarrow> Some v)"

definition merge_User :: "User \<Rightarrow> User \<Rightarrow> User" where
  "merge_User stored u =
     u\<lparr>password := keep_undefined (password stored) (password u),
       lastLoginAt := keep_undefined (lastLoginAt stored) (lastLoginAt u),
       businessName := keep_undefined (businessName stored) (businessName u),
       businessType := keep_undefined (businessType stored) (businessType u),
       businessAddress := keep_undefined (businessAddress stored) (businessAddress u),
       countrySpecificFields :=
         keep_undefined (countrySpecificFields stored) (countrySpecificFields u),
       ownerPhone := keep_undefined (ownerPhone stored) (ownerPhone u),
       ownerDateOfBirth := keep_undefined (ownerDateOfBirth stored) (ownerDateOfBirth u),
       marketingConsent := keep_undefined (marketingConsent stored) (marketingConsent u),
       termsAcceptedAt := keep_undefined (termsAcceptedAt stored) (termsAcceptedAt u),
       privacyPolicyAcceptedAt :=
         keep_undefined (privacyPolicyAcceptedAt stored) (privacyPolicyAcceptedAt u),
       dataProcessingAcceptedAt :=
         keep_undefined (dataProcessingAcceptedAt stored) (dataProcessingAcceptedAt u),
       marketingConsentGivenAt :=
         keep_undefined (marketingConsentGivenAt stored) (marketingConsentGivenAt u),
       registrationIpAddress :=
         keep_undefined (registrationIpAddress stored) (registrationIpAddress u),
       registrationUserAgent :=
         keep_undefined (registrationUserAgent stored) (registrationUserAgent u)\<rparr>"

definition updateUser :: "Database \<Rightarrow> User \<Rightarrow> User \<times> Database" where
  "updateUser db u =
     (u, db\<lparr>users := map (\<lambda>x. if user_id x = user_id u then merge_User x u else x)
                        (users db)\<rparr>)"

definition slug_taken :: "Database \<Rightarrow> Store \<Rightarrow> bool" where
  "slug_taken db s =
     (case slug s of None \<Rightarrow> False | Some sl \<Rightarrow> findStoreBySlug db sl \<noteq> None)"

definition insertStore :: "Database \<Rightarrow> Store \<Rightarrow> error + (Store \<times> Database)" where
  "insertStore db s =
     (if slug_taken db s
      then Inl (QueryFailedError ''duplicate key value violates unique constraint'')
      else (let s' = s\<lparr>store_id := new_id (map store_id (stores db))\<rparr>
            in Inr (s', db\<lparr>stores := stores db @ [s']\<rparr>)))"

subsection \<open>Audit service\<close>

text \<open>Modelled from the spec: the audit service (\<open>services/audit/audit.service\<close>) is not
  part of this source tree. Following section 4.4 of the specification, each of its
  three operations appends one event to the log and never rejects.\<close>

definition logUserRegistration ::
  "Database \<Rightarrow> nat \<Rightarrow> StoreOwnerRegisterRequest \<Rightarrow> string \<Rightarrow> string \<Rightarrow> Database" where
  "logUserRegistration db uid d ip ua =
     db\<lparr>auditLogs := auditLogs db @ [UserRegistration uid d ip ua]\<rparr>"

definition logStoreRegistration ::
  "Database \<Rightarrow> nat \<Rightarrow> StoreRegistrationPayload \<Rightarrow> nat \<Rightarrow> string \<Rightarrow> string \<Rightarrow> Database" where
  "logStoreRegistration db sid p uid ip ua =
     db\<lparr>auditLogs := auditLogs db @ [StoreRegistration sid p uid ip ua]\<rparr>"

definition logConsentAcceptance ::
  "Database \<Rightarrow> nat \<Rightarrow> ConsentKind \<Rightarrow> bool \<Rightarrow> string \<Rightarrow> string \<Rightarrow> Database" where
  "logConsentAcceptance db uid k accepted ip ua =
     db\<lparr>auditLogs := auditLogs db @ [ConsentAcceptance uid k accepted ip ua]\<rparr>"

section \<open>AuthService\<close>

definition jwt_secret :: "Externals \<Rightarrow> string" where
  "jwt_secret ext =
     (case JWT_SECRET ext of
        None \<Rightarrow> ''default-secret-key''
      | Some s \<Rightarrow> if s = [] then ''default-secret-key'' else s)"

definition generateToken :: "Externals \<Rightarrow> js_date \<Rightarrow> User \<Rightarrow> string" where
  "generateToken ext now u =
     jwt_sign ext \<lparr>jwt_userId = Some (user_id u), jwt_email = email u, jwt_role = role u\<rparr>
       (jwt_secret ext) ''7d'' now"

definition login ::
  "Externals \<Rightarrow> js_date \<Rightarrow> Database \<Rightarrow> LoginRequest \<Rightarrow> (error + AuthResponse) \<times> Database" where
  "login ext now db credentials =
     (case findUserByEmail db (toLowerCase ext (login_email credentials)) of
        None \<Rightarrow> (Inl (Error ''Invalid credentials''), db)
      | Some u \<Rightarrow>
          (case password u of
             None \<Rightarrow> (Inl (Error ''Invalid credentials''), db)
           | Some pw \<Rightarrow>
               if pw = [] then (Inl (Error ''Invalid credentials''), db)
               else if \<not> bcrypt_compare ext (login_password credentials) pw
               then (Inl (Error ''Invalid credentials''), db)
               else if \<not> isActive u then (Inl (Error ''Account is deactivated''), db)
               else
                 (let u1 = u\<lparr>lastLoginAt := Some now\<rparr>;
                      db1 = snd (updateUser db u1)
                  in (Inr \<lparr>token = generateToken ext now u1,
                           user = \<lparr>view_id = user_id u1, view_email = email u1,
                                   view_firstName = firstName u1, view_lastName = lastName u1,
                                   view_role = role u1, view_type = userType u1,
                                   view_isActive = isActive u1,
                                   view_lastLoginAt = lastLoginAt u1,
                                   view_isFullyRegistered = None\<rparr>,
                           store = None\<rparr>, db1))))"


text \<open>The owner's age as the service computes it: the difference of the two calendar
  years, NaN when the date of birth is not a valid date.\<close>

definition owner_age :: "js_date \<Rightarrow> js_date \<Rightarrow> int option" where
  "owner_age now dob = js_minus (getFullYear now) (getFullYear dob)"

definition pending_documents :: "(string \<times> DocumentState) list" where
  "pending_documents =
     [(''registrationCertificate'', pending),
      (''sirenCertificate'', pending),
      (''taxCertificate'', pending),
      (''identityDocument'', pending),
      (''proofOfAddress'', pending),
      (''bankDetails'', pending)]"

text \<open>The two entities that \<open>registerStoreOwner\<close> builds before saving them.\<close>

definition new_store_owner :: "Externals \<Rightarrow> js_date \<Rightarrow> StoreOwnerRegisterRequest \<Rightarrow> User" where
  "new_store_owner ext now d =
     (User_defaults ext)
       \<lparr>email := toLowerCase ext (req_email d),
        password := Some (bcrypt_hash ext (req_password d) 12),
        firstName := req_ownerFirstName d,
        lastName := req_ownerLastName d,
        role := STORE_OWNER,
        userType := LOCAL,
        businessName := Some (req_businessName d),
        businessType := Some (req_businessType d),
        businessAddress := Some (req_businessAddress d),
        countrySpecificFields := req_countrySpecificFields d,
        ownerPhone := Some (req_ownerPhone d),
        ownerDateOfBirth := Some (req_ownerDateOfBirth d),
        acceptedTerms := req_acceptedTerms d,
        acceptedPrivacyPolicy := req_acceptedPrivacyPolicy d,
        acceptedDataProcessing := req_acceptedDataProcessing d,
        marketingConsent := req_marketingConsent d,
        termsAcceptedAt := (if req_acceptedTerms d then Some now else None),
        privacyPolicyAcceptedAt := (if req_acceptedPrivacyPolicy d then Some now else None),
        dataProcessingAcceptedAt := (if req_acceptedDataProcessing d then Some now else None),
        marketingConsentGivenAt :=
          (if req_marketingConsent d = Some True then Some now else None),
        registrationIpAddress := Some (req_ipAddress d),
        registrationUserAgent := Some (req_userAgent d),
        isFullyRegistered := False\<rparr>"

definition new_owner_store :: "Externals \<Rightarrow> User \<Rightarrow> StoreOwnerRegisterRequest \<Rightarrow> Store" where
  "new_owner_store ext savedUser d =
     Store_defaults
       \<lparr>ownerId := Some (user_id savedUser),
        name := req_storeName d,
        slug := Some (createSlug ext (req_storeName d)),
        legalBusinessName := Some (req_businessName d),
        legalBusinessType := Some (req_businessType d),
        legalAddress := Some (req_businessAddress d),
        store_countrySpecificFields := req_countrySpecificFields d,
        documentVerificationStatus := Some pending_documents\<rparr>"

text \<open>The audit calls that follow the two saves, in the order of the source.\<close>

definition log_registration ::
  "Database \<Rightarrow> User \<Rightarrow> Store \<Rightarrow> StoreOwnerRegisterRequest \<Rightarrow> Database" where
  "log_registration db savedUser savedStore d =
     (let ip = req_ipAddress d; ua = req_userAgent d; uid = user_id savedUser;
          db1 = logUserRegistration db uid d ip ua;
          db2 = logStoreRegistration db1 (store_id savedStore)
                  \<lparr>sr_name = req_storeName d, sr_businessName = req_businessName d,
                   sr_businessType = req_businessType d,
                   sr_businessAddress = req_businessAddress d,
                   sr_countrySpecificFields = req_countrySpecificFields d\<rparr> uid ip ua;
          db3 = (if req_acceptedTerms d
                 then logConsentAcceptance db2 uid terms True ip ua else db2);
          db4 = (if req_acceptedPrivacyPolicy d
                 then logConsentAcceptance db3 uid privacy True ip ua else db3);
          db5 = (if req_acceptedDataProcessing d
                 then logConsentAcceptance db4 uid data_processing True ip ua else db4)
      in (if req_marketingConsent d = Some True
          then logConsentAcceptance db5 uid marketing True ip ua else db5))"

definition registerStoreOwner ::
  "Externals \<Rightarrow> js_date \<Rightarrow> Database \<Rightarrow> StoreOwnerRegisterRequest
     \<Rightarrow> (error + AuthResponse) \<times> Database" where
  "registerStoreOwner ext now db d =
     (case findUserByEmail db (toLowerCase ext (req_email d)) of
        Some existingUser \<Rightarrow> (Inl (Error ''Email already registered''), db)
      | None \<Rightarrow>
          if js_less (owner_age now (req_ownerDateOfBirth d)) 18
          then (Inl (Error ''You must be at least 18 years old to register''), db)
          else
            (let savedUser = fst (insertUser db (new_store_owner ext now d));
                 db1 = snd (insertUser db (new_store_owner ext now d))
             in (case insertStore db1 (new_owner_store ext savedUser d) of
                   Inl e \<Rightarrow> (Inl e, db1)
                 | Inr (savedStore, db2) \<Rightarrow>
                     (Inr \<lparr>token = generateToken ext now savedUser,
                           user = \<lparr>view_id = user_id savedUser, view_email = email savedUser,
                                   view_firstName = firstName savedUser,
                                   view_lastName = lastName savedUser,
                                   view_role = role savedUser,
                                   view_type = userType savedUser,
                                   view_isActive = isActive savedUser,
                                   view_lastLoginAt = None,
                                   view_isFullyRegistered =
                                     Some (isFullyRegistered savedUser)\<rparr>,
                           store = Some \<lparr>sview_id = store_id savedStore,
                                         sview_name = name savedStore,
                                         sview_isActive = store_isActive savedStore,
                                         sview_isLegallyVerified =
                                           Some (isLegallyVerified savedStore)\<rparr>\<rparr>,
                      log_registration db2 savedUser savedStore d))))"

definition validateToken :: "Externals \<Rightarrow> js_date \<Rightarrow> Database \<Rightarrow> string \<Rightarrow> User option" where
  "validateToken ext now db tok =
     (case jwt_verify ext tok (jwt_secret ext) now of
        Inl e \<Rightarrow> None
      | Inr payload \<Rightarrow> findActiveUserById db (jwt_userId payload))"

text \<open>The assignments \<open>completeOnboarding\<close> makes to the loaded user, and the store it
  builds.\<close>

definition onboarded_user :: "Externals \<Rightarrow> User \<Rightarrow> OnboardingData \<Rightarrow> User" where
  "onboarded_user ext u d =
     u\<lparr>ownerPhone := Some (ob_phoneNumber d),
       businessAddress := Some (ob_storeAddress d),
       countrySpecificFields :=
         Some ((case countrySpecificFields u of
                  None \<Rightarrow> no_CountrySpecificFields
                | Some c \<Rightarrow> c)\<lparr>siret := Some (ob_siret d)\<rparr>),
       acceptedTerms := ob_acceptedCGU d,
       termsAcceptedAt :=
         (if ob_acceptedCGU d then Some (new_Date ext (ob_acceptedCGUAt d)) else None),
       acceptedPrivacyPolicy := ob_acceptedCGU d,
       privacyPolicyAcceptedAt :=
         (if ob_acceptedCGU d then Some (new_Date ext (ob_acceptedCGUAt d)) else None),
       acceptedDataProcessing := ob_acceptedCGU d,
       dataProcessingAcceptedAt :=
         (if ob_acceptedCGU d then Some (new_Date ext (ob_acceptedCGUAt d)) else None),
       role := STORE_OWNER,
       isFullyRegistered := True\<rparr>"

definition onboarding_store :: "Externals \<Rightarrow> nat \<Rightarrow> OnboardingData \<Rightarrow> Store" where
  "onboarding_store ext userId d =
     Store_defaults
       \<lparr>ownerId := Some userId,
        name := ob_storeName d,
        slug := Some (createSlug ext (ob_storeName d)),
        legalAddress := Some (ob_storeAddress d),
        address := Some (street (ob_storeAddress d) @ '', '' @ postalCode (ob_storeAddress d)
                           @ '' '' @ city (ob_storeAddress d)),
        phone := Some (ob_phoneNumber d),
        store_countrySpecificFields := Some (no_CountrySpecificFields\<lparr>siret := Some (ob_siret d)\<rparr>),
        documentVerificationStatus := Some pending_documents\<rparr>"

definition completeOnboarding ::
  "Externals \<Rightarrow> Database \<Rightarrow> nat \<Rightarrow> OnboardingData
     \<Rightarrow> (error + OnboardingResponse) \<times> Database" where
  "completeOnboarding ext db userId d =
     (case findUserById db userId of
        None \<Rightarrow> (Inl (Error ''User not found''), db)
      | Some u \<Rightarrow>
          (let savedUser = fst (updateUser db (onboarded_user ext u d));
               db1 = snd (updateUser db (onboarded_user ext u d))
           in (case insertStore db1 (onboarding_store ext userId d) of
                 Inl e \<Rightarrow> (Inl e, db1)
               | Inr (savedStore, db2) \<Rightarrow>
                   (Inr \<lparr>ob_user = \<lparr>view_id = user_id savedUser,
                                    view_email = email savedUser,
                                    view_firstName = firstName savedUser,
                                    view_lastName = lastName savedUser,
                                    view_role = role savedUser,
                                    view_type = userType savedUser,
                                    view_isActive = isActive savedUser,
                                    view_lastLoginAt = None,
                                    view_isFullyRegistered =
                                      Some (isFullyRegistered savedUser)\<rparr>,
                         ob_store = \<lparr>sview_id = store_id savedStore,
                                     sview_name = name savedStore,
                                     sview_isActive = store_isActive savedStore,
                                     sview_isLegallyVerified = None\<rparr>\<rparr>, db2))))"

record Availability =
  available :: bool
  avail_slug :: string

definition checkStoreNameAvailability :: "Externals \<Rightarrow> Database \<Rightarrow> string \<Rightarrow> Availability" where
  "checkStoreNameAvailability ext db storeName =
     (let sl = createSlug ext storeName
      in \<lparr>available = (findStoreBySlug db sl = None), avail_slug = sl\<rparr>)"


section \<open>Login controllers\<close>

text \<open>
  The two login handlers have the same body. \<open>validation\<close> is what the request
  validator reports for the request (an empty list when it found nothing). Everything
  the service throws is an \<open>Error\<close> instance, so the handler answers 401 with the
  error's own message.
\<close>

datatype ResponseBody =
    MessageOnly string
  | ValidationFailed "string list"
  | LoginSuccessful AuthResponse

record HttpResponse =
  status :: nat
  body :: ResponseBody

definition customerLogin ::
  "Externals \<Rightarrow> js_date \<Rightarrow> Database \<Rightarrow> string list \<Rightarrow> LoginRequest
     \<Rightarrow> HttpResponse \<times> Database" where
  "customerLogin ext now db validation credentials =
     (if validation \<noteq> []
      then (\<lparr>status = 400, body = ValidationFailed validation\<rparr>, db)
      else (case login ext now db credentials of
              (Inr result, db1) \<Rightarrow> (\<lparr>status = 200, body = LoginSuccessful result\<rparr>, db1)
            | (Inl e, db1) \<Rightarrow> (\<lparr>status = 401, body = MessageOnly (message e)\<rparr>, db1)))"

definition storeOwnerLogin ::
  "Externals \<Rightarrow> js_date \<Rightarrow> Database \<Rightarrow> string list \<Rightarrow> LoginRequest
     \<Rightarrow> HttpResponse \<times> Database" where
  "storeOwnerLogin ext now db validation credentials =
     (if validation \<noteq> []
      then (\<lparr>status = 400, body = ValidationFailed validation\<rparr>, db)
      else (case login ext now db credentials of
              (Inr result, db1) \<Rightarrow> (\<lparr>status = 200, body = LoginSuccessful result\<rparr>, db1)
            | (Inl e, db1) \<Rightarrow> (\<lparr>status = 401, body = MessageOnly (message e)\<rparr>, db1)))"

section \<open>Access guard\<close>

text \<open>
  \<open>authMiddleware\<close> verifies the bearer token itself and does not go through
  \<open>validateToken\<close>. Its handler tests \<open>instanceof JsonWebTokenError\<close> first; the
  library's expiry error is an instance of that class too.
\<close>

fun instanceof_JsonWebTokenError :: "jwt_error \<Rightarrow> bool" where
  "instanceof_JsonWebTokenError JsonWebTokenError = True"
| "instanceof_JsonWebTokenError TokenExpiredError = True"
| "instanceof_JsonWebTokenError NotBeforeError = True"

fun instanceof_TokenExpiredError :: "jwt_error \<Rightarrow> bool" where
  "instanceof_TokenExpiredError TokenExpiredError = True"
| "instanceof_TokenExpiredError JsonWebTokenError = False"
| "instanceof_TokenExpiredError NotBeforeError = False"

datatype GuardResult = Next User nat | Respond nat string

definition authMiddleware ::
  "Externals \<Rightarrow> js_date \<Rightarrow> Database \<Rightarrow> string option \<Rightarrow> GuardResult" where
  "authMiddleware ext now db authorization =
     (case authorization of
        None \<Rightarrow> Respond 401 ''Unauthorized - No token provided''
      | Some authHeader \<Rightarrow>
          if take 7 authHeader \<noteq> ''Bearer ''
          then Respond 401 ''Unauthorized - No token provided''
          else
            (case jwt_verify ext (drop 7 authHeader) (jwt_secret ext) now of
               Inl e \<Rightarrow>
                 if instanceof_JsonWebTokenError e
                 then Respond 401 ''Unauthorized - Invalid token''
                 else if instanceof_TokenExpiredError e
                 then Respond 401 ''Unauthorized - Token expired''
                 else Respond 500 ''Internal server error''
             | Inr payload \<Rightarrow>
                 (case findActiveUserById db (jwt_userId payload) of
                    None \<Rightarrow> Respond 401 ''Unauthorized - Invalid token''
                  | Some u \<Rightarrow> Next u (user_id u))))"

section \<open>Sequences of service calls\<close>








section \<open>Sample collaborators and sample data\<close>

text \<open>
  Concrete stand-ins for the external collaborators, used to run the model on explicit
  inputs: lowercasing of the ASCII letters, a tagging password hash, tokens that are
  verified by name, and a slug helper that lowercases and turns spaces into hyphens. The
  general theorems below hold for every choice of collaborators.
\<close>

definition lower_char :: "char \<Rightarrow> char" where
  "lower_char c =
     (if (65::nat) \<le> of_char c \<and> (of_char c :: nat) \<le> 90
      then char_of ((of_char c :: nat) + 32) else c)"

definition sample_toLowerCase :: "string \<Rightarrow> string" where
  "sample_toLowerCase s = map lower_char s"

definition sample_hash :: "string \<Rightarrow> nat \<Rightarrow> string" where
  "sample_hash pw rounds = ''hashed:'' @ pw"

definition sample_compare :: "string \<Rightarrow> string \<Rightarrow> bool" where
  "sample_compare pw h = (h = ''hashed:'' @ pw)"

definition sample_sign :: "JwtPayload \<Rightarrow> string \<Rightarrow> string \<Rightarrow> js_date \<Rightarrow> string" where
  "sample_sign p secret window now = ''token-for-'' @ jwt_email p"

definition sample_verify :: "string \<Rightarrow> string \<Rightarrow> js_date \<Rightarrow> jwt_error + JwtPayload" where
  "sample_verify tok secret now =
     (if tok = ''expired-token'' then Inl TokenExpiredError
      else if tok = ''good-token''
      then Inr \<lparr>jwt_userId = Some 1, jwt_email = ''marie@example.com'', jwt_role = CUSTOMER\<rparr>
      else if tok = ''token-without-id''
      then Inr \<lparr>jwt_userId = None, jwt_email = ''nobody@example.com'', jwt_role = CUSTOMER\<rparr>
      else Inl JsonWebTokenError)"

definition sample_createSlug :: "string \<Rightarrow> string" where
  "sample_createSlug s = map (\<lambda>c. if c = CHR '' '' then CHR ''-'' else lower_char c) s"

definition sample_blank_user :: User where
  "sample_blank_user =
     \<lparr>user_id = 0, email = [], password = None, firstName = [], lastName = [],
      role = CUSTOMER, userType = LOCAL, isActive = True, isFullyRegistered = False,
      lastLoginAt = None, businessName = None, businessType = None, businessAddress = None,
      countrySpecificFields = None, ownerPhone = None, ownerDateOfBirth = None,
      acceptedTerms = False, acceptedPrivacyPolicy = False, acceptedDataProcessing = False,
      marketingConsent = None, termsAcceptedAt = None, privacyPolicyAcceptedAt = None,
      dataProcessingAcceptedAt = None, marketingConsentGivenAt = None,
      registrationIpAddress = None, registrationUserAgent = None\<rparr>"

definition sample_ext :: Externals where
  "sample_ext =
     \<lparr>toLowerCase = sample_toLowerCase, bcrypt_hash = sample_hash,
      bcrypt_compare = sample_compare, jwt_sign = sample_sign, jwt_verify = sample_verify,
      new_Date = (\<lambda>s. Date 2026 1 15 0), JWT_SECRET = None,
      createSlug = sample_createSlug, User_defaults = sample_blank_user\<rparr>"

definition sample_now :: js_date where
  "sample_now = Date 2026 11 1 0"

definition sample_address :: Address where
  "sample_address = \<lparr>street = ''1 rue de la Paix'', city = ''Paris'', postalCode = ''75002'',
                      country = ''FR''\<rparr>"

definition sample_request :: StoreOwnerRegisterRequest where
  "sample_request =
     \<lparr>req_email = ''Marie@Example.com'', req_password = ''s3cret-pw'',
      req_storeName = ''Chez Marie'', req_businessName = ''Chez Marie SARL'',
      req_businessType = llc, req_businessAddress = sample_address,
      req_ownerFirstName = ''Marie'', req_ownerLastName = ''Durand'',
      req_ownerPhone = ''+33100000000'', req_ownerDateOfBirth = Date 1990 5 20 0,
      req_acceptedTerms = True, req_acceptedPrivacyPolicy = True,
      req_acceptedDataProcessing = True, req_marketingConsent = None,
      req_countrySpecificFields = None, req_ipAddress = ''203.0.113.7'',
      req_userAgent = ''curl''\<rparr>"


definition sample_onboarding :: OnboardingData where
  "sample_onboarding =
     \<lparr>ob_phoneNumber = ''+33100000000'', ob_storeName = ''Chez Marie'',
      ob_siret = ''12345678901234'', ob_storeAddress = sample_address,
      ob_billingAddress = sample_address, ob_acceptedCGU = True,
      ob_acceptedCGUAt = ''2026-01-15T00:00:00.000Z''\<rparr>"

text \<open>A store that already holds the slug of the name "Chez Marie", and a directory
  that contains only that store.\<close>

definition taken_store :: Store where
  "taken_store = Store_defaults\<lparr>store_id := 1, name := ''chez marie'', slug := Some ''chez-marie''\<rparr>"

definition taken_db :: Database where
  "taken_db = \<lparr>users = [], stores = [taken_store], auditLogs = []\<rparr>"

text \<open>An active customer and a deactivated one, both with the password "pw-12345".\<close>

definition active_user :: User where
  "active_user = sample_blank_user\<lparr>user_id := 1, email := ''marie@example.com'',
                   password := Some ''hashed:pw-12345''\<rparr>"

definition inactive_user :: User where
  "inactive_user = sample_blank_user\<lparr>user_id := 2, email := ''paul@example.com'',
                     password := Some ''hashed:pw-12345'', isActive := False\<rparr>"

definition login_db :: Database where
  "login_db = \<lparr>users = [active_user, inactive_user], stores = [], auditLogs = []\<rparr>"




definition onboarding_db :: Database where
  "onboarding_db = \<lparr>users = [active_user], stores = [taken_store], auditLogs = []\<rparr>"

text \<open>The sample request with a date of birth 17 and 18 calendar years before the sample
  clock reading.\<close>

definition minor_request :: StoreOwnerRegisterRequest where
  "minor_request = sample_request\<lparr>req_ownerDateOfBirth := Date 2009 12 31 0\<rparr>"

definition eighteen_request :: StoreOwnerRegisterRequest where
  "eighteen_request = sample_request\<lparr>req_ownerDateOfBirth := Date 2008 12 31 0\<rparr>"

section \<open>The directory invariant\<close>


section \<open>Storage lemmas\<close>




lemma find_Some_holds: "find P xs = Some x \<Longrightarrow> P x \<and> x \<in> set xs"
  by (induction xs) (auto split: if_splits)


lemma insertStore_Inl:
  "insertStore db s = Inl e \<Longrightarrow>
     e = QueryFailedError ''duplicate key value violates unique constraint'' \<and> slug_taken db s"
  by (auto simp: insertStore_def Let_def split: if_splits)

lemma insertStore_Inr:
  "insertStore db s = Inr (s', db') \<Longrightarrow>
     \<not> slug_taken db s \<and> s' = s\<lparr>store_id := new_id (map store_id (stores db))\<rparr> \<and>
     db' = db\<lparr>stores := stores db @ [s']\<rparr>"
  by (auto simp: insertStore_def Let_def split: if_splits)

lemma insertStore_users: "insertStore db s = Inr (s', db') \<Longrightarrow> users db' = users db"
  by (auto dest: insertStore_Inr)

lemma insertUser_users [simp]:
  "users (snd (insertUser db u)) = users db @ [fst (insertUser db u)]"
  by (simp add: insertUser_def Let_def)

lemma insertUser_fst: "fst (insertUser db u) = u\<lparr>user_id := new_id (map user_id (users db))\<rparr>"
  by (simp add: insertUser_def Let_def)

lemma insertUser_stores [simp]: "stores (snd (insertUser db u)) = stores db"
  by (simp add: insertUser_def Let_def)

lemma updateUser_stores [simp]: "stores (snd (updateUser db u)) = stores db"
  by (simp add: updateUser_def)

lemma merge_User_id [simp]: "user_id (merge_User x u) = user_id u"
  by (simp add: merge_User_def)

lemma merge_User_email [simp]: "email (merge_User x u) = email u"
  by (simp add: merge_User_def)

lemma updateUser_users [simp]:
  "users (snd (updateUser db u)) =
     map (\<lambda>x. if user_id x = user_id u then merge_User x u else x) (users db)"
  by (simp add: updateUser_def)

lemma log_registration_users [simp]: "users (log_registration db u s d) = users db"
  by (simp add: log_registration_def Let_def logUserRegistration_def
        logStoreRegistration_def logConsentAcceptance_def)

lemma log_registration_stores [simp]: "stores (log_registration db u s d) = stores db"
  by (simp add: log_registration_def Let_def logUserRegistration_def
        logStoreRegistration_def logConsentAcceptance_def)

lemma find_replaced:
  "find (\<lambda>x. user_id x = i) xs = Some u \<Longrightarrow> user_id v = i \<Longrightarrow>
   find (\<lambda>x. user_id x = i) (map (\<lambda>x. if user_id x = i then merge_User x v else x) xs)
     = Some (merge_User u v)"
  by (induction xs) (auto split: if_splits)

lemma findActiveUserById_Some:
  "findActiveUserById db i = Some u \<Longrightarrow>
     isActive u \<and> u \<in> set (users db) \<and> (\<forall>k. i = Some k \<longrightarrow> user_id u = k)"
  by (auto simp: findActiveUserById_def split: option.splits dest: find_Some_holds)

section \<open>The paths through registerStoreOwner\<close>

lemma registerStoreOwner_existing:
  "findUserByEmail db (toLowerCase ext (req_email d)) = Some x \<Longrightarrow>
   registerStoreOwner ext now db d = (Inl (Error ''Email already registered''), db)"
  by (simp add: registerStoreOwner_def)

lemma registerStoreOwner_underage:
  "findUserByEmail db (toLowerCase ext (req_email d)) = None \<Longrightarrow>
   js_less (owner_age now (req_ownerDateOfBirth d)) 18 \<Longrightarrow>
   registerStoreOwner ext now db d =
     (Inl (Error ''You must be at least 18 years old to register''), db)"
  by (simp add: registerStoreOwner_def)

lemma registerStoreOwner_store_refused:
  "findUserByEmail db (toLowerCase ext (req_email d)) = None \<Longrightarrow>
   \<not> js_less (owner_age now (req_ownerDateOfBirth d)) 18 \<Longrightarrow>
   insertStore (snd (insertUser db (new_store_owner ext now d)))
     (new_owner_store ext (fst (insertUser db (new_store_owner ext now d))) d) = Inl e \<Longrightarrow>
   registerStoreOwner ext now db d = (Inl e, snd (insertUser db (new_store_owner ext now d)))"
  by (simp add: registerStoreOwner_def Let_def)

lemma registerStoreOwner_saved:
  "findUserByEmail db (toLowerCase ext (req_email d)) = None \<Longrightarrow>
   \<not> js_less (owner_age now (req_ownerDateOfBirth d)) 18 \<Longrightarrow>
   insertStore (snd (insertUser db (new_store_owner ext now d)))
     (new_owner_store ext (fst (insertUser db (new_store_owner ext now d))) d)
       = Inr (savedStore, db2) \<Longrightarrow>
   \<exists>r. registerStoreOwner ext now db d =
          (Inr r, log_registration db2 (fst (insertUser db (new_store_owner ext now d)))
                    savedStore d) \<and>
       view_isFullyRegistered (user r) =
         Some (isFullyRegistered (fst (insertUser db (new_store_owner ext now d))))"
  by (simp add: registerStoreOwner_def Let_def)

lemma registerStoreOwner_users:
  "users (snd (registerStoreOwner ext now db d)) = users db \<or>
   users (snd (registerStoreOwner ext now db d)) =
     users db @ [fst (insertUser db (new_store_owner ext now d))]"
proof (cases "findUserByEmail db (toLowerCase ext (req_email d))")
  case (Some x)
  then show ?thesis by (simp add: registerStoreOwner_existing)
next
  case None
  show ?thesis
  proof (cases "js_less (owner_age now (req_ownerDateOfBirth d)) 18")
    case True
    with None show ?thesis by (simp add: registerStoreOwner_underage)
  next
    case False
    show ?thesis
    proof (cases "insertStore (snd (insertUser db (new_store_owner ext now d)))
        (new_owner_store ext (fst (insertUser db (new_store_owner ext now d))) d)")
      case (Inl e)
      with None False show ?thesis by (simp add: registerStoreOwner_store_refused)
    next
      case (Inr p)
      obtain savedStore db2 where p: "p = (savedStore, db2)" by (cases p)
      from registerStoreOwner_saved [OF None False Inr [unfolded p]]
      obtain r where "registerStoreOwner ext now db d =
          (Inr r, log_registration db2 (fst (insertUser db (new_store_owner ext now d)))
                    savedStore d)" by blast
      moreover have "users db2 = users (snd (insertUser db (new_store_owner ext now d)))"
        using Inr [unfolded p] by (rule insertStore_users)
      ultimately show ?thesis by simp
    qed
  qed
qed

lemma new_store_owner_flag:
  "isFullyRegistered (fst (insertUser db (new_store_owner ext now d))) = False \<and>
   role (fst (insertUser db (new_store_owner ext now d))) = STORE_OWNER"
  by (simp add: insertUser_fst new_store_owner_def)


lemma registerStoreOwner_view_flag:
  assumes "fst (registerStoreOwner ext now db d) = Inr r"
  shows "view_isFullyRegistered (user r) = Some False"
proof (cases "findUserByEmail db (toLowerCase ext (req_email d))")
  case (Some x)
  with assms show ?thesis by (simp add: registerStoreOwner_existing)
next
  case None
  show ?thesis
  proof (cases "js_less (owner_age now (req_ownerDateOfBirth d)) 18")
    case True
    with None assms show ?thesis by (simp add: registerStoreOwner_underage)
  next
    case False
    show ?thesis
    proof (cases "insertStore (snd (insertUser db (new_store_owner ext now d)))
        (new_owner_store ext (fst (insertUser db (new_store_owner ext now d))) d)")
      case (Inl e)
      with None False assms show ?thesis by (simp add: registerStoreOwner_store_refused)
    next
      case (Inr p)
      obtain savedStore db2 where p: "p = (savedStore, db2)" by (cases p)
      from registerStoreOwner_saved [OF None False Inr [unfolded p]] assms
      show ?thesis by (auto simp: new_store_owner_flag)
    qed
  qed
qed

lemma registerStoreOwner_stores:
  "registerStoreOwner ext now db d = (res, db') \<Longrightarrow>
     (case res of
        Inl e \<Rightarrow> stores db' = stores db
      | Inr r \<Rightarrow> stores db' = stores db @
           [(new_owner_store ext (fst (insertUser db (new_store_owner ext now d))) d)
              \<lparr>store_id := new_id (map store_id (stores db))\<rparr>])"
  by (auto simp: registerStoreOwner_def Let_def
           split: option.splits sum.splits prod.splits if_splits
           dest!: insertStore_Inr)

section \<open>The paths through completeOnboarding\<close>

lemma onboarded_user_id [simp]: "user_id (onboarded_user ext u d) = user_id u"
  by (simp add: onboarded_user_def)

lemma onboarded_user_email [simp]: "email (onboarded_user ext u d) = email u"
  by (simp add: onboarded_user_def)

lemma completeOnboarding_stores:
  "completeOnboarding ext db uid d = (res, db') \<Longrightarrow>
     (case res of
        Inl e \<Rightarrow> stores db' = stores db
      | Inr r \<Rightarrow> stores db' = stores db @
           [(onboarding_store ext uid d)\<lparr>store_id := new_id (map store_id (stores db))\<rparr>])"
  by (auto simp: completeOnboarding_def Let_def
           split: option.splits sum.splits prod.splits if_splits
           dest!: insertStore_Inr)

lemma completeOnboarding_users:
  "findUserById db uid = Some u \<Longrightarrow>
   users (snd (completeOnboarding ext db uid d)) =
     map (\<lambda>x. if user_id x = uid then merge_User x (onboarded_user ext u d) else x) (users db)"
proof -
  assume f: "findUserById db uid = Some u"
  then have i: "user_id u = uid"
    by (auto simp: findUserById_def dest: find_Some_holds)
  show ?thesis
    using f i
    by (auto simp: completeOnboarding_def Let_def
             split: sum.splits prod.splits dest!: insertStore_users)
qed

section \<open>Login\<close>

text \<open>
  Claim C9. A login that fails leaves the stored state as it was, and it fails exactly
  when no user has the lowercased address, the user has no stored password (none, or an
  empty one), the password does not match, or the account is inactive. The last-login
  timestamp is therefore written only by a login that passed every check.
\<close>

theorem login_failure_leaves_state:
  "(fst (login ext now db c) = Inl e \<longrightarrow> snd (login ext now db c) = db) \<and>
   ((\<exists>e'. fst (login ext now db c) = Inl e') \<longleftrightarrow>
      (case findUserByEmail db (toLowerCase ext (login_email c)) of
         None \<Rightarrow> True
       | Some u \<Rightarrow>
           (case password u of
              None \<Rightarrow> True
            | Some pw \<Rightarrow> pw = [] \<or> \<not> bcrypt_compare ext (login_password c) pw \<or> \<not> isActive u)))"
  by (auto simp: login_def Let_def split: option.splits if_splits)

theorem login_failure_leaves_state_witness:
  "fst (login sample_ext sample_now login_db
          \<lparr>login_email = ''paul@example.com'', login_password = ''pw-12345''\<rparr>)
     = Inl (Error ''Account is deactivated'') \<and>
   snd (login sample_ext sample_now login_db
          \<lparr>login_email = ''paul@example.com'', login_password = ''pw-12345''\<rparr>) = login_db"
proof -
  have h: "fst (login sample_ext sample_now login_db
          \<lparr>login_email = ''paul@example.com'', login_password = ''pw-12345''\<rparr>)
     = Inl (Error ''Account is deactivated'')"
    by code_simp
  from login_failure_leaves_state
         [of sample_ext sample_now login_db
            "\<lparr>login_email = ''paul@example.com'', login_password = ''pw-12345''\<rparr>"
            "Error ''Account is deactivated''"] h
  show ?thesis by blast
qed

lemma login_error_message:
  assumes "fst (login ext now db c) = Inl e"
  shows "(e = Error ''Invalid credentials'' \<or> e = Error ''Account is deactivated'') \<and>
     (e = Error ''Account is deactivated'' \<longleftrightarrow>
        (case findUserByEmail db (toLowerCase ext (login_email c)) of
           None \<Rightarrow> False
         | Some u \<Rightarrow>
             (case password u of
                None \<Rightarrow> False
              | Some pw \<Rightarrow> pw \<noteq> [] \<and> bcrypt_compare ext (login_password c) pw \<and> \<not> isActive u)))"
  using assms
  by (auto simp: login_def Let_def split: option.splits if_splits)

text \<open>
  Claim C6, as stated, fails: the handler copies the service's message into the 401
  body, and the service uses a different message for a deactivated account. With the
  right password for the deactivated account of the sample directory the body reads
  "Account is deactivated"; with a wrong password it reads "Invalid credentials".
\<close>

theorem failed_login_body_counterexample:
  "fst (customerLogin sample_ext sample_now login_db []
          \<lparr>login_email = ''paul@example.com'', login_password = ''wrong-pw1''\<rparr>)
     = \<lparr>status = 401, body = MessageOnly ''Invalid credentials''\<rparr> \<and>
   fst (customerLogin sample_ext sample_now login_db []
          \<lparr>login_email = ''paul@example.com'', login_password = ''pw-12345''\<rparr>)
     = \<lparr>status = 401, body = MessageOnly ''Account is deactivated''\<rparr>"
  by code_simp

text \<open>
  Claim C6, amended. For every failed login of a request that passed validation, both
  login handlers answer 401 with the service's error message as the body. The message is
  "Account is deactivated" exactly when the user exists, has a stored password, the
  password matches and the account is inactive; it is "Invalid credentials" in every
  other failure, so an unknown address, a missing password and a wrong password share
  one body.
\<close>

theorem failed_login_body:
  assumes "fst (login ext now db c) = Inl e"
  shows "fst (customerLogin ext now db [] c) = \<lparr>status = 401, body = MessageOnly (message e)\<rparr> \<and>
     fst (storeOwnerLogin ext now db [] c) = \<lparr>status = 401, body = MessageOnly (message e)\<rparr> \<and>
     (message e = ''Invalid credentials'' \<or> message e = ''Account is deactivated'') \<and>
     (message e = ''Account is deactivated'' \<longleftrightarrow>
        (case findUserByEmail db (toLowerCase ext (login_email c)) of
           None \<Rightarrow> False
         | Some u \<Rightarrow>
             (case password u of
                None \<Rightarrow> False
              | Some pw \<Rightarrow> pw \<noteq> [] \<and> bcrypt_compare ext (login_password c) pw \<and> \<not> isActive u)))"
proof -
  obtain res db' where l: "login ext now db c = (res, db')" by (cases "login ext now db c")
  with assms have r: "res = Inl e" by simp
  have a: "fst (customerLogin ext now db [] c) = \<lparr>status = 401, body = MessageOnly (message e)\<rparr>"
    by (simp add: customerLogin_def l r)
  have b: "fst (storeOwnerLogin ext now db [] c) = \<lparr>status = 401, body = MessageOnly (message e)\<rparr>"
    by (simp add: storeOwnerLogin_def l r)
  from login_error_message [OF assms] a b show ?thesis
    by auto
qed

theorem failed_login_body_witness:
  "fst (login sample_ext sample_now login_db
          \<lparr>login_email = ''nobody@example.com'', login_password = ''pw-12345''\<rparr>)
     = Inl (Error ''Invalid credentials'') \<and>
   fst (customerLogin sample_ext sample_now login_db []
          \<lparr>login_email = ''nobody@example.com'', login_password = ''pw-12345''\<rparr>)
     = \<lparr>status = 401, body = MessageOnly ''Invalid credentials''\<rparr>"
proof -
  have h: "fst (login sample_ext sample_now login_db
          \<lparr>login_email = ''nobody@example.com'', login_password = ''pw-12345''\<rparr>)
     = Inl (Error ''Invalid credentials'')"
    by code_simp
  from failed_login_body [OF h] h show ?thesis by simp
qed

section \<open>Store-owner registration\<close>

text \<open>
  Claim C5. When both years are defined, a request whose calendar-year difference is
  below 18 is rejected and changes nothing (with the age message, or with the
  duplicate-address message when the address is already registered, which is checked
  first); a request whose difference is exactly 18 is never rejected with the age message.
\<close>

theorem registerStoreOwner_age_check:
  assumes "getFullYear now = Some currentYear"
    and "getFullYear (req_ownerDateOfBirth d) = Some birthYear"
  shows "(currentYear - birthYear < 18 \<longrightarrow>
            registerStoreOwner ext now db d =
              (Inl (Error (if findUserByEmail db (toLowerCase ext (req_email d)) = None
                           then ''You must be at least 18 years old to register''
                           else ''Email already registered'')), db)) \<and>
         (currentYear - birthYear = 18 \<longrightarrow>
            fst (registerStoreOwner ext now db d)
              \<noteq> Inl (Error ''You must be at least 18 years old to register''))"
  using assms
  by (auto simp: registerStoreOwner_def owner_age_def js_minus_def js_less_def Let_def
           split: option.splits sum.splits prod.splits dest: insertStore_Inl)

theorem registerStoreOwner_age_check_witness:
  "getFullYear sample_now = Some 2026 \<and>
   getFullYear (req_ownerDateOfBirth minor_request) = Some 2009 \<and>
   registerStoreOwner sample_ext sample_now empty_db minor_request =
     (Inl (Error ''You must be at least 18 years old to register''), empty_db) \<and>
   getFullYear (req_ownerDateOfBirth eighteen_request) = Some 2008 \<and>
   fst (registerStoreOwner sample_ext sample_now empty_db eighteen_request)
     \<noteq> Inl (Error ''You must be at least 18 years old to register'')"
proof -
  have n: "getFullYear sample_now = Some 2026" by code_simp
  have m: "getFullYear (req_ownerDateOfBirth minor_request) = Some 2009" by code_simp
  have e: "getFullYear (req_ownerDateOfBirth eighteen_request) = Some 2008" by code_simp
  have f: "findUserByEmail empty_db (toLowerCase sample_ext (req_email minor_request)) = None"
    by code_simp
  from registerStoreOwner_age_check [OF n m, of sample_ext empty_db] f
  have a: "registerStoreOwner sample_ext sample_now empty_db minor_request =
     (Inl (Error ''You must be at least 18 years old to register''), empty_db)"
    by simp
  from registerStoreOwner_age_check [OF n e, of sample_ext empty_db]
  have b: "fst (registerStoreOwner sample_ext sample_now empty_db eighteen_request)
     \<noteq> Inl (Error ''You must be at least 18 years old to register'')"
    by simp
  from n m e a b show ?thesis by blast
qed

text \<open>
  Claim C3, as stated, fails: the user that the direct registration path creates has the
  fully-registered flag cleared, in the stored row and in the returned view.
\<close>

theorem registerStoreOwner_fully_registered_counterexample:
  "map isFullyRegistered
     (users (snd (registerStoreOwner sample_ext sample_now empty_db sample_request)))
     = [False] \<and>
   map (\<lambda>r. view_isFullyRegistered (user r))
     (case fst (registerStoreOwner sample_ext sample_now empty_db sample_request) of
        Inl e \<Rightarrow> [] | Inr r \<Rightarrow> [r]) = [Some False]"
  by code_simp

text \<open>
  Claim C3, amended. A call of the direct registration path creates at most one user;
  the user it creates has the role of a store owner and the fully-registered flag set to
  false, and a successful call reports the flag as false in its response.
\<close>

theorem registerStoreOwner_not_fully_registered:
  "(users (snd (registerStoreOwner ext now db d)) = users db \<or>
    (\<exists>u. users (snd (registerStoreOwner ext now db d)) = users db @ [u] \<and>
         role u = STORE_OWNER \<and> isFullyRegistered u = False)) \<and>
   (\<forall>r. fst (registerStoreOwner ext now db d) = Inr r \<longrightarrow>
        view_isFullyRegistered (user r) = Some False)"
proof (intro conjI allI impI)
  show "users (snd (registerStoreOwner ext now db d)) = users db \<or>
    (\<exists>u. users (snd (registerStoreOwner ext now db d)) = users db @ [u] \<and>
         role u = STORE_OWNER \<and> isFullyRegistered u = False)"
    using registerStoreOwner_users [of ext now db d] new_store_owner_flag [of db ext now d]
    by blast
next
  fix r
  assume "fst (registerStoreOwner ext now db d) = Inr r"
  then show "view_isFullyRegistered (user r) = Some False"
    by (rule registerStoreOwner_view_flag)
qed

theorem registerStoreOwner_not_fully_registered_witness:
  "fst (registerStoreOwner sample_ext sample_now empty_db sample_request)
     = Inr (projr (fst (registerStoreOwner sample_ext sample_now empty_db sample_request))) \<and>
   view_isFullyRegistered
     (user (projr (fst (registerStoreOwner sample_ext sample_now empty_db sample_request))))
     = Some False"
proof -
  have h: "fst (registerStoreOwner sample_ext sample_now empty_db sample_request)
     = Inr (projr (fst (registerStoreOwner sample_ext sample_now empty_db sample_request)))"
    by code_simp
  from registerStoreOwner_not_fully_registered [of sample_ext sample_now empty_db sample_request] h
  show ?thesis by blast
qed

text \<open>
  Claim C7. Whenever a store-owner registration succeeds, it has appended exactly one
  store, which carries the requested name and, as its slug, the slug that the
  availability check reports for that name (on whatever state the check was run).
\<close>

theorem check_and_register_same_slug:
  assumes "registerStoreOwner ext now db d = (Inr r, db')"
  shows "\<exists>s. stores db' = stores db @ [s] \<and> name s = req_storeName d \<and>
             slug s = Some (avail_slug (checkStoreNameAvailability ext db0 (req_storeName d)))"
  using registerStoreOwner_stores [OF assms]
  by (simp add: new_owner_store_def checkStoreNameAvailability_def Let_def)

theorem check_and_register_same_slug_witness:
  "fst (registerStoreOwner sample_ext sample_now empty_db sample_request)
     = Inr (projr (fst (registerStoreOwner sample_ext sample_now empty_db sample_request))) \<and>
   (\<exists>s. stores (snd (registerStoreOwner sample_ext sample_now empty_db sample_request))
           = stores empty_db @ [s] \<and>
        name s = req_storeName sample_request \<and>
        slug s = Some (avail_slug (checkStoreNameAvailability sample_ext taken_db
                                     (req_storeName sample_request))))"
proof -
  have h1: "fst (registerStoreOwner sample_ext sample_now empty_db sample_request)
     = Inr (projr (fst (registerStoreOwner sample_ext sample_now empty_db sample_request)))"
    by code_simp
  then have h: "registerStoreOwner sample_ext sample_now empty_db sample_request
     = (Inr (projr (fst (registerStoreOwner sample_ext sample_now empty_db sample_request))),
        snd (registerStoreOwner sample_ext sample_now empty_db sample_request))"
    by (metis prod.collapse)
  from check_and_register_same_slug [OF h, of taken_db] h1 show ?thesis
    by blast
qed

text \<open>
  Claim C8. A call of either store-creating operation either fails and leaves the stores
  as they were, or succeeds and appends exactly one store, whose document-verification
  status holds exactly the six fixed keys, each in the state pending.
\<close>

theorem created_store_documents_pending:
  "((\<exists>e. fst (registerStoreOwner ext now db d) = Inl e) \<and>
      stores (snd (registerStoreOwner ext now db d)) = stores db \<or>
    (\<exists>r. fst (registerStoreOwner ext now db d) = Inr r) \<and>
      (\<exists>s. stores (snd (registerStoreOwner ext now db d)) = stores db @ [s] \<and>
         documentVerificationStatus s =
           Some [(''registrationCertificate'', pending), (''sirenCertificate'', pending),
                 (''taxCertificate'', pending), (''identityDocument'', pending),
                 (''proofOfAddress'', pending), (''bankDetails'', pending)])) \<and>
   ((\<exists>e. fst (completeOnboarding ext db2 userId od) = Inl e) \<and>
      stores (snd (completeOnboarding ext db2 userId od)) = stores db2 \<or>
    (\<exists>r. fst (completeOnboarding ext db2 userId od) = Inr r) \<and>
      (\<exists>s. stores (snd (completeOnboarding ext db2 userId od)) = stores db2 @ [s] \<and>
         documentVerificationStatus s =
           Some [(''registrationCertificate'', pending), (''sirenCertificate'', pending),
                 (''taxCertificate'', pending), (''identityDocument'', pending),
                 (''proofOfAddress'', pending), (''bankDetails'', pending)]))"
proof
  obtain res db' where a: "registerStoreOwner ext now db d = (res, db')"
    by (cases "registerStoreOwner ext now db d")
  show "(\<exists>e. fst (registerStoreOwner ext now db d) = Inl e) \<and>
      stores (snd (registerStoreOwner ext now db d)) = stores db \<or>
    (\<exists>r. fst (registerStoreOwner ext now db d) = Inr r) \<and>
      (\<exists>s. stores (snd (registerStoreOwner ext now db d)) = stores db @ [s] \<and>
         documentVerificationStatus s =
           Some [(''registrationCertificate'', pending), (''sirenCertificate'', pending),
                 (''taxCertificate'', pending), (''identityDocument'', pending),
                 (''proofOfAddress'', pending), (''bankDetails'', pending)])"
    using registerStoreOwner_stores [OF a] a
    by (cases res) (simp_all add: new_owner_store_def pending_documents_def)
next
  obtain res db' where a: "completeOnboarding ext db2 userId od = (res, db')"
    by (cases "completeOnboarding ext db2 userId od")
  show "(\<exists>e. fst (completeOnboarding ext db2 userId od) = Inl e) \<and>
      stores (snd (completeOnboarding ext db2 userId od)) = stores db2 \<or>
    (\<exists>r. fst (completeOnboarding ext db2 userId od) = Inr r) \<and>
      (\<exists>s. stores (snd (completeOnboarding ext db2 userId od)) = stores db2 @ [s] \<and>
         documentVerificationStatus s =
           Some [(''registrationCertificate'', pending), (''sirenCertificate'', pending),
                 (''taxCertificate'', pending), (''identityDocument'', pending),
                 (''proofOfAddress'', pending), (''bankDetails'', pending)])"
    using completeOnboarding_stores [OF a] a
    by (cases res) (simp_all add: onboarding_store_def pending_documents_def)
qed

theorem created_store_documents_pending_witness:
  "length (stores (snd (registerStoreOwner sample_ext sample_now empty_db sample_request))) = 1 \<and>
   length (stores (snd (completeOnboarding sample_ext login_db 1 sample_onboarding))) = 1 \<and>
   (\<exists>s. stores (snd (registerStoreOwner sample_ext sample_now empty_db sample_request)) = [s] \<and>
        documentVerificationStatus s =
          Some [(''registrationCertificate'', pending), (''sirenCertificate'', pending),
                (''taxCertificate'', pending), (''identityDocument'', pending),
                (''proofOfAddress'', pending), (''bankDetails'', pending)]) \<and>
   (\<exists>s. stores (snd (completeOnboarding sample_ext login_db 1 sample_onboarding)) = [s] \<and>
        documentVerificationStatus s =
          Some [(''registrationCertificate'', pending), (''sirenCertificate'', pending),
                (''taxCertificate'', pending), (''identityDocument'', pending),
                (''proofOfAddress'', pending), (''bankDetails'', pending)])"
proof -
  have a: "length (stores (snd (registerStoreOwner sample_ext sample_now empty_db sample_request))) = 1"
    by code_simp
  have b: "length (stores (snd (completeOnboarding sample_ext login_db 1 sample_onboarding))) = 1"
    by code_simp
  have e: "stores empty_db = []" "stores login_db = []"
    by code_simp+
  from created_store_documents_pending
         [of sample_ext sample_now empty_db sample_request login_db 1 sample_onboarding] a b e
  show ?thesis by auto
qed

section \<open>Onboarding\<close>

text \<open>What the stored user holds after an onboarding call that found the user: the three
  consent flags as supplied, and the three timestamps as supplied when the consents are
  accepted.\<close>

lemma completeOnboarding_consents_stored:
  assumes "findUserById db userId = Some u"
  shows "\<exists>u'. findUserById (snd (completeOnboarding ext db userId d)) userId = Some u' \<and>
           acceptedTerms u' = ob_acceptedCGU d \<and>
           acceptedPrivacyPolicy u' = ob_acceptedCGU d \<and>
           acceptedDataProcessing u' = ob_acceptedCGU d \<and>
           (ob_acceptedCGU d \<longrightarrow>
              termsAcceptedAt u' = Some (new_Date ext (ob_acceptedCGUAt d)) \<and>
              privacyPolicyAcceptedAt u' = Some (new_Date ext (ob_acceptedCGUAt d)) \<and>
              dataProcessingAcceptedAt u' = Some (new_Date ext (ob_acceptedCGUAt d)))"
proof -
  have i: "user_id u = userId"
    using assms by (auto simp: findUserById_def dest: find_Some_holds)
  have "findUserById (snd (completeOnboarding ext db userId d)) userId
          = Some (merge_User u (onboarded_user ext u d))"
    unfolding findUserById_def completeOnboarding_users [OF assms]
    using assms i by (intro find_replaced) (simp_all add: findUserById_def)
  then show ?thesis
    by (simp add: onboarded_user_def merge_User_def keep_undefined_def)
qed


section \<open>Token validation\<close>

text \<open>
  Claim C4, as stated, fails: \<open>validateToken\<close> catches every error of the verification
  and returns null, so an expired token and a malformed one give the same result and a
  caller cannot tell the two failures apart.
\<close>

theorem validateToken_kinds_counterexample:
  "jwt_verify sample_ext ''expired-token'' (jwt_secret sample_ext) sample_now
     = Inl TokenExpiredError \<and>
   jwt_verify sample_ext ''not-a-token'' (jwt_secret sample_ext) sample_now
     = Inl JsonWebTokenError \<and>
   validateToken sample_ext sample_now login_db ''expired-token''
     = validateToken sample_ext sample_now login_db ''not-a-token''"
  by code_simp

text \<open>
  Claim C4, amended. \<open>validateToken\<close> returns null for every token whose verification
  fails, whatever the kind of the failure: structurally invalid, wrongly signed and
  expired tokens all give the same result.
\<close>

theorem validateToken_failure_is_null:
  "jwt_verify ext tok (jwt_secret ext) now = Inl e \<Longrightarrow> validateToken ext now db tok = None"
  by (simp add: validateToken_def)

theorem validateToken_failure_is_null_witness:
  "jwt_verify sample_ext ''expired-token'' (jwt_secret sample_ext) sample_now
     = Inl TokenExpiredError \<and>
   validateToken sample_ext sample_now login_db ''expired-token'' = None \<and>
   jwt_verify sample_ext ''not-a-token'' (jwt_secret sample_ext) sample_now
     = Inl JsonWebTokenError \<and>
   validateToken sample_ext sample_now login_db ''not-a-token'' = None"
proof -
  have h: "jwt_verify sample_ext ''expired-token'' (jwt_secret sample_ext) sample_now
     = Inl TokenExpiredError"
    by code_simp
  have g: "jwt_verify sample_ext ''not-a-token'' (jwt_secret sample_ext) sample_now
     = Inl JsonWebTokenError"
    by code_simp
  from validateToken_failure_is_null [OF h] validateToken_failure_is_null [OF g] h g
  show ?thesis by blast
qed

text \<open>When a user is returned, the token verified and the user is a stored, active one;
  it is the user named by the payload when the payload names one. A verified token
  without an identifier resolves to the first active user.\<close>

lemma validateToken_returns_active_user:
  assumes "validateToken ext now db tok = Some u"
  shows "\<exists>p. jwt_verify ext tok (jwt_secret ext) now = Inr p \<and> isActive u \<and>
             u \<in> set (users db) \<and> (\<forall>k. jwt_userId p = Some k \<longrightarrow> user_id u = k)"
proof (cases "jwt_verify ext tok (jwt_secret ext) now")
  case (Inl e)
  with assms show ?thesis by (simp add: validateToken_def)
next
  case (Inr p)
  with assms have "findActiveUserById db (jwt_userId p) = Some u"
    by (simp add: validateToken_def)
  from findActiveUserById_Some [OF this] Inr show ?thesis by simp
qed

lemma validateToken_without_userId:
  "validateToken sample_ext sample_now login_db ''token-without-id'' = Some active_user"
  by code_simp

text \<open>The access guard does its own verification. Whatever the kind of the failure, its
  first test succeeds, so it answers with the invalid-token message.\<close>

lemma authMiddleware_failed_verification:
  assumes "take 7 authHeader = ''Bearer ''"
    and "jwt_verify ext (drop 7 authHeader) (jwt_secret ext) now = Inl e"
  shows "authMiddleware ext now db (Some authHeader)
           = Respond 401 ''Unauthorized - Invalid token''"
  using assms by (cases e) (simp_all add: authMiddleware_def)

section \<open>Atomicity of the two saves\<close>

text \<open>
  Claim C1. The claim asks that a failure after the user was saved undo that save. The
  service saves the user and the store through two repository calls with no
  transaction around them. Evaluated on a directory in which the slug of the requested
  store name is taken: the registration fails on the store insert and leaves the new
  user behind; the onboarding fails on the store insert and leaves the user upgraded
  to a store owner.
\<close>

theorem registration_not_atomic:
  "users taken_db = [] \<and>
   fst (registerStoreOwner sample_ext sample_now taken_db sample_request)
     = Inl (QueryFailedError ''duplicate key value violates unique constraint'') \<and>
   map email (users (snd (registerStoreOwner sample_ext sample_now taken_db sample_request)))
     = [''marie@example.com''] \<and>
   map role (users onboarding_db) = [CUSTOMER] \<and>
   fst (completeOnboarding sample_ext onboarding_db 1 sample_onboarding)
     = Inl (QueryFailedError ''duplicate key value violates unique constraint'') \<and>
   map role (users (snd (completeOnboarding sample_ext onboarding_db 1 sample_onboarding)))
     = [STORE_OWNER]"
  by code_simp

section \<open>Uniqueness of addresses\<close>























end
